theory Spec2Isabelle
  imports Main "HOL-Library.Word"
begin

unbundle bit_operations_syntax

section \<open>Machine types of the drivers\<close>

text \<open>
  The two drivers (\<^verbatim>\<open>drivers/hwmon/aspeed-g6-pwm-tacho.c\<close> and
  \<^verbatim>\<open>drivers/iio/adc/aspeed_adc.c\<close>) are built for the AST2600, a 32-bit ARM SoC:
  \<^verbatim>\<open>u32\<close>, \<^verbatim>\<open>unsigned int\<close> and \<^verbatim>\<open>unsigned long\<close> are 32-bit unsigned words
  (arithmetic wraps modulo \<open>2 ^ 32\<close>), \<^verbatim>\<open>int\<close> and \<^verbatim>\<open>long\<close> are 32-bit two's
  complement words. A comparison or an arithmetic operation between an \<^verbatim>\<open>int\<close> and an
  \<^verbatim>\<open>unsigned long\<close> converts the \<^verbatim>\<open>int\<close> to unsigned (\<open>ucast\<close> keeps the bits).
  Loop counters that the source bounds by 12, 16 or 256 are natural numbers.
\<close>

type_synonym u8 = "8 word"
type_synonym u16 = "16 word"
type_synonym u32 = "32 word"
type_synonym s32 = "32 word"  \<comment> \<open>an \<^verbatim>\<open>int\<close>: the bits, read by \<open>sint\<close>\<close>

text \<open>
  What C leaves undefined or traps on is a value of the model: an array access outside the
  table, and an integer division by zero.
\<close>

datatype fault = Out_of_bounds | Division_by_zero

datatype errno = EINVAL | EPERM

definition array_get :: "'a list \<Rightarrow> int \<Rightarrow> 'a option" where
  "array_get xs i = (if 0 \<le> i \<and> i < int (length xs) then Some (xs ! nat i) else None)"

definition array_set :: "'a list \<Rightarrow> int \<Rightarrow> 'a \<Rightarrow> 'a list" where
  "array_set xs i v = xs[nat i := v]"

text \<open>
  Modelled from the spec: the kernel macro \<^verbatim>\<open>BIT(n)\<close> (\<^verbatim>\<open>include/linux/bits.h\<close>, not
  under src/) is \<^verbatim>\<open>1UL << n\<close>, the power of two \<open>2 ^ n\<close> of the divider ladders, as an
  \<^verbatim>\<open>unsigned long\<close>.
\<close>

definition BIT :: "nat \<Rightarrow> u32" where
  "BIT n = push_bit n 1"

section \<open>Register map\<close>

text \<open>
  Modelled from the spec: \<^verbatim>\<open>regmap_write\<close> and \<^verbatim>\<open>regmap_update_bits\<close>
  (\<^verbatim>\<open>drivers/base/regmap\<close>, not under src/) on the memory-mapped register file of
  section 6: a write stores the 32-bit word at the register offset, an update is the
  read-modify-write of section 5 that replaces the bits selected by the mask. The map has no
  cache (the driver's \<^verbatim>\<open>regmap_config\<close> sets none), so the register file is the only
  state. Every call is appended to \<open>oplog\<close>, the order in which the driver touched the bus.
\<close>

datatype reg_op = Regmap_write u32 u32 | Regmap_update_bits u32 u32 u32

record regmap =
  regs :: "u32 \<Rightarrow> u32"
  oplog :: "reg_op list"

definition regmap_write :: "regmap \<Rightarrow> u32 \<Rightarrow> u32 \<Rightarrow> regmap" where
  "regmap_write m reg val =
     m\<lparr>regs := (regs m)(reg := val), oplog := oplog m @ [Regmap_write reg val]\<rparr>"

definition regmap_update_bits :: "regmap \<Rightarrow> u32 \<Rightarrow> u32 \<Rightarrow> u32 \<Rightarrow> regmap" where
  "regmap_update_bits m reg msk val =
     m\<lparr>regs := (regs m)(reg := (regs m reg AND NOT msk) OR (val AND msk)),
       oplog := oplog m @ [Regmap_update_bits reg msk val]\<rparr>"

section \<open>PWM and tachometer driver: constants and data\<close>

definition ASPEED_PWM_CTRL_CH :: "u8 \<Rightarrow> u32" where
  "ASPEED_PWM_CTRL_CH x = ucast x * 0x10 + 0x00"

definition PWM_LOAD_AS_WDT :: u32 where "PWM_LOAD_AS_WDT = BIT 19"
definition PWM_DUTY_LOAD_AS_WDT_EN :: u32 where "PWM_DUTY_LOAD_AS_WDT_EN = BIT 18"
definition PWM_CLK_ENABLE :: u32 where "PWM_CLK_ENABLE = BIT 16"
definition PWM_PIN_EN :: u32 where "PWM_PIN_EN = BIT 12"

definition ASPEED_PWM_DUTY_CYCLE_CH :: "u8 \<Rightarrow> u32" where
  "ASPEED_PWM_DUTY_CYCLE_CH x = ucast x * 0x10 + 0x04"

definition PWM_PERIOD_BIT :: nat where "PWM_PERIOD_BIT = 24"
definition PWM_RISING_FALLING_AS_WDT_BIT :: nat where "PWM_RISING_FALLING_AS_WDT_BIT = 16"
definition PWM_RISING_FALLING_BIT :: nat where "PWM_RISING_FALLING_BIT = 8"
definition PWM_RISING_RISING_BIT :: nat where "PWM_RISING_RISING_BIT = 0"
definition PWM_PERIOD_MAX :: u32 where "PWM_PERIOD_MAX = 255"
definition PWM_FALLING_DEFAULT :: u8 where "PWM_FALLING_DEFAULT = 255"

definition ASPEED_TACHO_CTRL_CH :: "u8 \<Rightarrow> u32" where
  "ASPEED_TACHO_CTRL_CH x = ucast x * 0x10 + 0x08"

definition TACHO_IER :: u32 where "TACHO_IER = BIT 31"
definition TACHO_INVERS_LIMIT :: u32 where "TACHO_INVERS_LIMIT = BIT 30"
definition TACHO_ENABLE :: u32 where "TACHO_ENABLE = BIT 28"
definition TACHO_DEBOUNCE_BIT :: nat where "TACHO_DEBOUNCE_BIT = 26"
definition TACHIO_EDGE_BIT :: nat where "TACHIO_EDGE_BIT = 24"
definition TACHO_CLK_DIV_BIT :: nat where "TACHO_CLK_DIV_BIT = 20"

definition ASPEED_TACHO_STS_CH :: "u8 \<Rightarrow> u32" where
  "ASPEED_TACHO_STS_CH x = ucast x * 0x10 + 0x0C"

definition TACHO_FULL_MEASUREMENT :: u32 where "TACHO_FULL_MEASUREMENT = BIT 20"
definition TACHO_VALUE_MASK :: u32 where "TACHO_VALUE_MASK = 0xfffff"

definition F2F_EDGES :: u8 where "F2F_EDGES = 0x00"

record aspeed_pwm_channel_params =
  target_freq :: s32
  pwm_freq :: s32
  load_wdt_rising_falling_pt :: s32
  load_wdt_selection :: s32
  load_wdt_enable :: s32
  duty_sync_enable :: s32
  invert_pin :: s32
  rising :: u8
  falling :: u8

text \<open>
  The field \<^verbatim>\<open>divide\<close> of the source is \<open>divide'\<close> here (\<open>divide\<close> is the division of
  HOL).
\<close>

record aspeed_tacho_channel_params =
  min_rpm :: u32
  limited_inverse :: s32
  threshold :: u16
  tacho_edge :: u8
  tacho_debounce :: u8
  divide' :: u32

text \<open>
  The sixteen entries of \<^verbatim>\<open>default_pwm_params\<close> are identical but for entry 0, which
  enables the watchdog load; \<^verbatim>\<open>pwm_freq\<close> is not initialised by the table, so it is 0.
\<close>

definition default_pwm_param :: "s32 \<Rightarrow> aspeed_pwm_channel_params" where
  "default_pwm_param wdt_en =
     \<lparr>target_freq = 25000, pwm_freq = 0, load_wdt_rising_falling_pt = 0x10,
      load_wdt_selection = 0, load_wdt_enable = wdt_en, duty_sync_enable = 0,
      invert_pin = 0, rising = 0x00, falling = PWM_FALLING_DEFAULT\<rparr>"

definition default_pwm_params :: "aspeed_pwm_channel_params list" where
  "default_pwm_params = default_pwm_param 1 # replicate 15 (default_pwm_param 0)"

definition default_tacho_param :: aspeed_tacho_channel_params where
  "default_tacho_param =
     \<lparr>min_rpm = 2900, limited_inverse = 0, threshold = 0, tacho_edge = F2F_EDGES,
      tacho_debounce = 0, divide' = 8\<rparr>"

definition default_tacho_params :: "aspeed_tacho_channel_params list" where
  "default_tacho_params = replicate 16 default_tacho_param"

record aspeed_pwm_tachometer_data =
  regmap :: regmap
  clk_freq :: u32
  pwm_channel :: "aspeed_pwm_channel_params list"
  tacho_channel :: "aspeed_tacho_channel_params list"

section \<open>Tachometer divider search\<close>

text \<open>
  The loop \<^verbatim>\<open>for (i = 0; i < 12; i++) { divide_val = BIT(i) * BIT(i); if (divide_val >
  target_div) break; }\<close> of \<^verbatim>\<open>aspeed_set_fan_tach_ch_enable\<close>, returning the values of
  \<^verbatim>\<open>i\<close> and \<^verbatim>\<open>divide_val\<close> at its exit.
\<close>

function tach_div_loop :: "u32 \<Rightarrow> nat \<Rightarrow> u32 \<Rightarrow> nat \<times> u32" where
  "tach_div_loop target_div i divide_val =
     (if i < 12 then
        (let dv = BIT i * BIT i in
         if dv > target_div then (i, dv) else tach_div_loop target_div (i + 1) dv)
      else (i, divide_val))"
  by pat_completeness auto
termination
  by (relation "measure (\<lambda>(t, i, d). 12 - i)") auto

declare tach_div_loop.simps [simp del]

definition tach_target_div :: "u32 \<Rightarrow> u32 \<Rightarrow> u32" where
  "tach_target_div clk rpm = (clk * 60 div rpm * 2) div (0xfffff + 1)"

text \<open>
  The exponent \<^verbatim>\<open>i\<close> and the divisor \<^verbatim>\<open>divide_val\<close> that the enable path computes from
  the clock and the minimum RPM (lines 512 to 522 of the source).
\<close>

definition tach_divider :: "u32 \<Rightarrow> u32 \<Rightarrow> nat \<times> u32" where
  "tach_divider clk rpm =
     (let target_div = tach_target_div clk rpm in
      if target_div \<noteq> 0 then tach_div_loop target_div 0 0 else (0, 1))"

definition tach_reg_value :: "aspeed_tacho_channel_params \<Rightarrow> nat \<Rightarrow> u32" where
  "tach_reg_value tc i =
     (let reg_value = TACHO_ENABLE OR
                      push_bit TACHIO_EDGE_BIT (ucast (tacho_edge tc)) OR
                      push_bit TACHO_CLK_DIV_BIT (of_nat i) OR
                      push_bit TACHO_DEBOUNCE_BIT (ucast (tacho_debounce tc));
          reg_value = (if limited_inverse tc \<noteq> 0 then reg_value OR TACHO_INVERS_LIMIT
                       else reg_value);
          reg_value = (if threshold tc \<noteq> 0 then reg_value OR (TACHO_IER OR ucast (threshold tc))
                       else reg_value)
      in reg_value)"

definition aspeed_set_fan_tach_ch_enable ::
  "aspeed_pwm_tachometer_data \<Rightarrow> u8 \<Rightarrow> bool \<Rightarrow> fault + aspeed_pwm_tachometer_data" where
  "aspeed_set_fan_tach_ch_enable priv fan_tach_ch enable =
     (if enable then
        (case array_get (tacho_channel priv) (uint fan_tach_ch) of
           None \<Rightarrow> Inl Out_of_bounds
         | Some tc \<Rightarrow>
             if min_rpm tc = 0 then Inl Division_by_zero
             else
               (let (i, divide_val) = tach_divider (clk_freq priv) (min_rpm tc);
                    tc' = tc\<lparr>divide' := divide_val\<rparr>
                in Inr (priv\<lparr>tacho_channel :=
                                 array_set (tacho_channel priv) (uint fan_tach_ch) tc',
                               regmap := regmap_write (regmap priv)
                                 (ASPEED_TACHO_CTRL_CH fan_tach_ch) (tach_reg_value tc' i)\<rparr>)))
      else Inr (priv\<lparr>regmap := regmap_update_bits (regmap priv)
                                  (ASPEED_TACHO_CTRL_CH fan_tach_ch) TACHO_ENABLE 0\<rparr>))"

section \<open>PWM divider search and waveform programmer\<close>

definition aspeed_set_pwm_channel_enable :: "regmap \<Rightarrow> u8 \<Rightarrow> bool \<Rightarrow> regmap" where
  "aspeed_set_pwm_channel_enable m pwm_ch enable =
     regmap_update_bits m (ASPEED_PWM_CTRL_CH pwm_ch) (PWM_CLK_ENABLE OR PWM_PIN_EN)
       (if enable then PWM_CLK_ENABLE OR PWM_PIN_EN else 0)"

text \<open>
  The inner loop \<^verbatim>\<open>for (div_h = 0; div_h < 0x10; div_h++)\<close> with its \<^verbatim>\<open>break\<close>,
  returning \<^verbatim>\<open>div_h\<close> at the exit (16 when no exponent passed the test). The target is
  the \<^verbatim>\<open>int\<close> field \<^verbatim>\<open>target_freq\<close>, converted to \<^verbatim>\<open>unsigned long\<close> by the
  comparison.
\<close>

function pwm_div_h_loop :: "u32 \<Rightarrow> u32 \<Rightarrow> nat \<Rightarrow> nat \<Rightarrow> nat" where
  "pwm_div_h_loop cal_freq target div_l div_h =
     (if div_h < 0x10 then
        (if cal_freq div (BIT div_h * (of_nat div_l + 1)) < target then div_h
         else pwm_div_h_loop cal_freq target div_l (div_h + 1))
      else div_h)"
  by pat_completeness auto
termination
  by (relation "measure (\<lambda>(c, t, l, h). 0x10 - h)") auto

declare pwm_div_h_loop.simps [simp del]

text \<open>
  The outer loop \<^verbatim>\<open>for (div_l = 0; div_l < 0x100; div_l++)\<close>: it runs the inner loop,
  repeats the test with the \<^verbatim>\<open>div_h\<close> the inner loop left, and breaks when the test
  holds. The result is the pair \<^verbatim>\<open>(div_h, div_l)\<close> at the exit, \<open>(16, 256)\<close> when no
  test ever held.
\<close>

function pwm_div_l_loop :: "u32 \<Rightarrow> u32 \<Rightarrow> nat \<Rightarrow> nat \<Rightarrow> nat \<times> nat" where
  "pwm_div_l_loop cal_freq target div_l div_h =
     (if div_l < 0x100 then
        (let div_h = pwm_div_h_loop cal_freq target div_l 0 in
         if cal_freq div (BIT div_h * (of_nat div_l + 1)) < target then (div_h, div_l)
         else pwm_div_l_loop cal_freq target (div_l + 1) div_h)
      else (div_h, div_l))"
  by pat_completeness auto
termination
  by (relation "measure (\<lambda>(c, t, l, h). 0x100 - l)") auto

declare pwm_div_l_loop.simps [simp del]

text \<open>Lines 563 to 576: the control and duty words, with the watchdog-load bits.\<close>

definition pwm_duty_ctrl_values ::
  "aspeed_pwm_channel_params \<Rightarrow> u8 \<Rightarrow> nat \<Rightarrow> nat \<Rightarrow> u32 \<times> u32" where
  "pwm_duty_ctrl_values pc fan_ctrl div_h div_l =
     (let ctrl_value = push_bit 8 (of_nat div_h) OR of_nat div_l;
          duty_value = push_bit PWM_PERIOD_BIT PWM_PERIOD_MAX OR
                       push_bit PWM_RISING_RISING_BIT 0 OR
                       push_bit PWM_RISING_FALLING_BIT (ucast fan_ctrl)
      in if load_wdt_enable pc \<noteq> 0 then
           (let ctrl_value = ctrl_value OR PWM_DUTY_LOAD_AS_WDT_EN in
            if load_wdt_selection pc \<noteq> 0 then
              (duty_value OR push_bit PWM_RISING_FALLING_AS_WDT_BIT
                               (load_wdt_rising_falling_pt pc),
               ctrl_value OR PWM_LOAD_AS_WDT)
            else
              (duty_value OR push_bit PWM_RISING_FALLING_AS_WDT_BIT
                               (load_wdt_rising_falling_pt pc),
               ctrl_value))
         else (duty_value, ctrl_value))"

definition aspeed_set_pwm_channel_fan_ctrl ::
  "aspeed_pwm_tachometer_data \<Rightarrow> u8 \<Rightarrow> u8 \<Rightarrow> fault + aspeed_pwm_tachometer_data" where
  "aspeed_set_pwm_channel_fan_ctrl priv index fan_ctrl =
     (if fan_ctrl = 0 then
        Inr (priv\<lparr>regmap := aspeed_set_pwm_channel_enable (regmap priv) index False\<rparr>)
      else
        (case array_get (pwm_channel priv) (uint index) of
           None \<Rightarrow> Inl Out_of_bounds
         | Some pc \<Rightarrow>
             (let cal_freq = clk_freq priv div (PWM_PERIOD_MAX + 1);
                  (div_h, div_l) = pwm_div_l_loop cal_freq (target_freq pc) 0 0;
                  pc' = pc\<lparr>pwm_freq := cal_freq div (BIT div_h * (of_nat div_l + 1))\<rparr>;
                  (duty_value, ctrl_value) = pwm_duty_ctrl_values pc' fan_ctrl div_h div_l;
                  m = regmap_write (regmap priv) (ASPEED_PWM_DUTY_CYCLE_CH index) duty_value;
                  m = regmap_write m (ASPEED_PWM_CTRL_CH index) ctrl_value;
                  m = aspeed_set_pwm_channel_enable m index True
              in Inr (priv\<lparr>pwm_channel := array_set (pwm_channel priv) (uint index) pc',
                            regmap := m\<rparr>))))"

section \<open>Tachometer reader\<close>

text \<open>
  The status register is volatile: \<open>rd k\<close> is the word that the \<open>k\<close>-th
  \<^verbatim>\<open>regmap_read\<close> of the call returns. The poll loop reads at most three times and keeps
  the last word read.
\<close>

function tach_sts_poll :: "(nat \<Rightarrow> u32) \<Rightarrow> nat \<Rightarrow> u32 \<Rightarrow> u32" where
  "tach_sts_poll rd i val =
     (if i < 3 then
        (let val = rd i in
         if (TACHO_FULL_MEASUREMENT AND val) \<noteq> 0 then val else tach_sts_poll rd (i + 1) val)
      else val)"
  by pat_completeness auto
termination
  by (relation "measure (\<lambda>(rd, i, v). 3 - i)") auto

declare tach_sts_poll.simps [simp del]

text \<open>
  Two names for stating properties: a status register that returns the same word at every
  read, and the 20-bit counter value that a call extracts from the word it polled.
\<close>

definition steady_reads :: "u32 \<Rightarrow> nat \<Rightarrow> u32" where
  "steady_reads v k = v"

definition tach_raw :: "(nat \<Rightarrow> u32) \<Rightarrow> u32" where
  "tach_raw rd = tach_sts_poll rd 0 0 AND TACHO_VALUE_MASK"

text \<open>
  The result is the \<^verbatim>\<open>int\<close> that the function returns, as its 32 bits. The division
  \<^verbatim>\<open>clk_source / tach_div\<close> is the only one of the function; where its divisor is 0 the
  result is the fault.
\<close>

definition aspeed_get_fan_tach_ch_rpm ::
  "aspeed_pwm_tachometer_data \<Rightarrow> u8 \<Rightarrow> (nat \<Rightarrow> u32) \<Rightarrow> fault + s32" where
  "aspeed_get_fan_tach_ch_rpm priv fan_tach_ch rd =
     (let val = tach_sts_poll rd 0 0;
          raw_data = val AND TACHO_VALUE_MASK
      in if raw_data = 0xfffff then Inr 0
         else
           (let raw_data = raw_data + 1 in
            case array_get (tacho_channel priv) (uint fan_tach_ch) of
              None \<Rightarrow> Inl Out_of_bounds
            | Some tc \<Rightarrow>
                (let tach_div = raw_data * divide' tc * 2;
                     clk_source = clk_freq priv
                 in if raw_data = 0 then Inr 0
                    else if tach_div = 0 then Inl Division_by_zero
                    else Inr (clk_source div tach_div * 60))))"

text \<open>
  The reference of the specification (section 4.3), in unbounded natural numbers:
  \<^verbatim>\<open>count = raw_count + 1\<close>, \<^verbatim>\<open>denom = count * divisor * 2\<close>,
  \<^verbatim>\<open>RPM = (source_clock_hz / denom) * 60\<close>, and 0 for the sentinel. (For a divisor of 0,
  which the specification does not consider, \<open>div\<close> gives 0 in HOL.)
\<close>

definition raw_to_rpm_spec :: "nat \<Rightarrow> nat \<Rightarrow> nat \<Rightarrow> nat" where
  "raw_to_rpm_spec raw_count divisor source_clock_hz =
     (if raw_count = 0xFFFFF then 0
      else (let count = raw_count + 1; denom = count * divisor * 2
            in (source_clock_hz div denom) * 60))"

section \<open>Cooling device\<close>

record aspeed_cooling_device =
  cdev_pwm_channel :: s32
  cooling_levels :: "u8 list"
  max_state :: u8
  cur_state :: u8

text \<open>
  \<^verbatim>\<open>cdev->priv\<close> is a pointer to the driver data: the function takes both objects and
  returns both, with the C return value (\<open>None\<close> is 0).
\<close>

definition aspeed_pwm_cz_set_cur_state ::
  "aspeed_cooling_device \<Rightarrow> aspeed_pwm_tachometer_data \<Rightarrow> u32 \<Rightarrow>
     fault + (errno option \<times> aspeed_cooling_device \<times> aspeed_pwm_tachometer_data)" where
  "aspeed_pwm_cz_set_cur_state cdev priv state =
     (if state > ucast (max_state cdev) then Inr (Some EINVAL, cdev, priv)
      else
        (let cdev' = cdev\<lparr>cur_state := ucast state\<rparr> in
         case array_get (cooling_levels cdev') (uint (cur_state cdev')) of
           None \<Rightarrow> Inl Out_of_bounds
         | Some level \<Rightarrow>
             (case array_get (pwm_channel priv) (sint (cdev_pwm_channel cdev')) of
                None \<Rightarrow> Inl Out_of_bounds
              | Some pc \<Rightarrow>
                  (let priv' = priv\<lparr>pwm_channel :=
                                 array_set (pwm_channel priv) (sint (cdev_pwm_channel cdev'))
                                   (pc\<lparr>falling := level\<rparr>)\<rparr>
                   in case aspeed_set_pwm_channel_fan_ctrl priv'
                             (ucast (cdev_pwm_channel cdev')) level of
                        Inl f \<Rightarrow> Inl f
                      | Inr priv'' \<Rightarrow> Inr (None, cdev', priv'')))))"

text \<open>
  The driver data as \<^verbatim>\<open>aspeed_pwm_tachometer_probe\<close> sets it up before the channels are
  created: the two default tables, the clock rate, and a register file that the reset left
  at zero.
\<close>

definition probe_priv :: "u32 \<Rightarrow> aspeed_pwm_tachometer_data" where
  "probe_priv clk =
     \<lparr>regmap = \<lparr>regs = (\<lambda>r. 0), oplog = []\<rparr>, clk_freq = clk,
      pwm_channel = default_pwm_params, tacho_channel = default_tacho_params\<rparr>"

text \<open>
  A configuration used in examples: the driver data at 24,000,000 Hz after tachometer
  channel 0 was given a minimum RPM of 1 (device-tree property \<^verbatim>\<open>aspeed,min_rpm\<close>) and
  enabled, and the same data before the enable. The enable path stores the divisor
  \<open>4 ^ 6 = 4096\<close> and writes exponent 6.
\<close>

definition fan_min_rpm_1_before :: aspeed_pwm_tachometer_data where
  "fan_min_rpm_1_before =
     (probe_priv 24000000)
       \<lparr>tacho_channel := array_set default_tacho_params 0 (default_tacho_param\<lparr>min_rpm := 1\<rparr>)\<rparr>"

definition fan_min_rpm_1_priv :: aspeed_pwm_tachometer_data where
  "fan_min_rpm_1_priv =
     (probe_priv 24000000)
       \<lparr>tacho_channel :=
          array_set default_tacho_params 0 (default_tacho_param\<lparr>min_rpm := 1, divide' := 4096\<rparr>),
        regmap := regmap_write (regmap (probe_priv 24000000)) (ASPEED_TACHO_CTRL_CH 0)
                    (tach_reg_value (default_tacho_param\<lparr>min_rpm := 1, divide' := 4096\<rparr>) 6)\<rparr>"

section \<open>ADC driver\<close>

definition ASPEED_CLOCKS_PER_SAMPLE :: s32 where
  "ASPEED_CLOCKS_PER_SAMPLE = 12"

record aspeed_adc_model_data =
  model_name :: string
  min_sampling_rate :: u32
  max_sampling_rate :: u32
  vref_voltage :: u32
  wait_init_sequence :: bool
  num_channels :: s32

definition ast2400_model_data :: aspeed_adc_model_data where
  "ast2400_model_data =
     \<lparr>model_name = ''ast2400-adc'', min_sampling_rate = 10000, max_sampling_rate = 500000,
      vref_voltage = 2500, wait_init_sequence = False, num_channels = 16\<rparr>"

definition ast2500_model_data :: aspeed_adc_model_data where
  "ast2500_model_data =
     \<lparr>model_name = ''ast2500-adc'', min_sampling_rate = 1, max_sampling_rate = 1000000,
      vref_voltage = 1800, wait_init_sequence = True, num_channels = 16\<rparr>"

definition ast2600_model_data :: aspeed_adc_model_data where
  "ast2600_model_data =
     \<lparr>model_name = ''ast2500-adc'', min_sampling_rate = 1, max_sampling_rate = 1000000,
      vref_voltage = 1800, wait_init_sequence = True, num_channels = 8\<rparr>"

definition aspeed_adc_matches :: "aspeed_adc_model_data list" where
  "aspeed_adc_matches = [ast2400_model_data, ast2500_model_data, ast2600_model_data]"

text \<open>
  The \<^verbatim>\<open>mask\<close> argument of the IIO callbacks: the three attributes the driver's channels
  declare, and any other value of \<^verbatim>\<open>enum iio_chan_info_enum\<close>.
\<close>

datatype iio_chan_info =
  IIO_CHAN_INFO_RAW | IIO_CHAN_INFO_SCALE | IIO_CHAN_INFO_SAMP_FREQ | IIO_CHAN_INFO_OTHER

text \<open>
  The ADC state: the register file behind \<^verbatim>\<open>base\<close>, the scaler clock and the
  compensation value. The clock framework is outside the driver: the state of a clock is a
  type parameter and \<^verbatim>\<open>clk_set_rate\<close> a parameter of \<^verbatim>\<open>aspeed_adc_write_raw\<close>.
\<close>

record 'clk aspeed_adc_data =
  base :: "u32 \<Rightarrow> u32"
  clk_scaler :: 'clk
  cv :: s32

definition aspeed_adc_write_raw ::
  "('clk \<Rightarrow> u32 \<Rightarrow> 'clk) \<Rightarrow> aspeed_adc_model_data \<Rightarrow> 'clk aspeed_adc_data \<Rightarrow>
     s32 \<Rightarrow> s32 \<Rightarrow> iio_chan_info \<Rightarrow> errno option \<times> 'clk aspeed_adc_data" where
  "aspeed_adc_write_raw clk_set_rate model_data data val val2 msk =
     (case msk of
        IIO_CHAN_INFO_SAMP_FREQ \<Rightarrow>
          if val < min_sampling_rate model_data \<or> val > max_sampling_rate model_data
          then (Some EINVAL, data)
          else (None, data\<lparr>clk_scaler :=
                             clk_set_rate (clk_scaler data) (val * ASPEED_CLOCKS_PER_SAMPLE)\<rparr>)
      | IIO_CHAN_INFO_SCALE \<Rightarrow> (Some EPERM, data)
      | IIO_CHAN_INFO_RAW \<Rightarrow> (Some EPERM, data)
      | IIO_CHAN_INFO_OTHER \<Rightarrow> (Some EINVAL, data))"

section \<open>Properties of the tachometer divider search\<close>

lemma tach_target_div_bound: "tach_target_div clk rpm < 4096"
proof -
  have "unat (tach_target_div clk rpm) = unat (clk * 60 div rpm * 2) div 2 ^ 20"
    by (simp add: tach_target_div_def unat_div)
  also have "\<dots> < 4096"
    using unsigned_less [of "clk * 60 div rpm * 2", where 'a = nat]
    by (simp add: less_mult_imp_div_less)
  finally show ?thesis by (simp add: word_less_nat_alt)
qed

lemma tach_div_loop_le6:
  "t < 4096 \<Longrightarrow> i \<le> 6 \<Longrightarrow> fst (tach_div_loop t i d) \<le> 6"
proof (induction t i d rule: tach_div_loop.induct)
  case (1 t i d)
  show ?case
  proof (cases "BIT i * BIT i > t")
    case True
    with 1 show ?thesis by (subst tach_div_loop.simps) (simp add: Let_def)
  next
    case False
    have "i \<noteq> 6"
    proof
      assume "i = 6"
      with False have "\<not> (4096 :: u32) > t" by (simp add: BIT_def)
      with 1(2) show False by simp
    qed
    with 1(3) have "i + 1 \<le> 6" by simp
    with 1 False show ?thesis by (subst tach_div_loop.simps) (simp add: Let_def)
  qed
qed

lemma tach_divider_le6: "fst (tach_divider clk rpm) \<le> 6"
  using tach_div_loop_le6 [OF tach_target_div_bound, of 0 clk rpm 0]
  by (simp add: tach_divider_def Let_def)

lemma bit_BIT: "bit (BIT k) n \<longleftrightarrow> n = k \<and> k < 32"
  by (auto simp add: BIT_def bit_exp_iff)

lemma bit_of_nat_small:
  assumes "i < 2 ^ k" and "bit (of_nat i :: u32) m"
  shows "m < k"
proof (rule ccontr)
  assume "\<not> m < k"
  then have "(2::nat) ^ k \<le> 2 ^ m" by simp
  with assms(1) have "i < 2 ^ m" by linarith
  then have "i div 2 ^ m = 0" by simp
  moreover from assms(2) have "bit i m" by (simp add: bit_of_nat_iff)
  ultimately show False by (simp add: bit_iff_odd)
qed

text \<open>
  The exponent is the only contribution to bits 23:20 of the control word: the edge mode
  and the debounce setting start at bit 24, the threshold is a 16-bit value.
\<close>

lemma tach_reg_value_field:
  assumes i: "i \<le> 15"
  shows "drop_bit 20 (tach_reg_value tc i) AND 0xf = of_nat i"
proof -
  have m: "(0xf :: u32) = mask 4" by (simp add: mask_eq_decr_exp)
  have t: "\<not> bit (threshold tc) (20 + m)" for m
    by (auto dest: bit_imp_le_length)
  have b: "bit (of_nat i :: u32) m \<Longrightarrow> m < 4" for m
    using bit_of_nat_small [of i 4 m] i by simp
  have "take_bit 4 (drop_bit 20 (tach_reg_value tc i)) = (of_nat i :: u32)"
  proof (rule bit_word_eqI)
    fix n assume "n < LENGTH(32)"
    then show "bit (take_bit 4 (drop_bit 20 (tach_reg_value tc i))) n = bit (of_nat i :: u32) n"
      using b [of n]
      by (auto simp add: tach_reg_value_def Let_def TACHO_ENABLE_def TACHIO_EDGE_BIT_def
          TACHO_CLK_DIV_BIT_def TACHO_DEBOUNCE_BIT_def TACHO_INVERS_LIMIT_def TACHO_IER_def
          bit_BIT bit_take_bit_iff bit_drop_bit_eq bit_or_iff bit_push_bit_iff bit_ucast_iff t)
  qed
  then show ?thesis by (simp add: m take_bit_eq_mask)
qed

text \<open>
  C3, as stated, fails: for a clock of 24,000,000 Hz and a minimum RPM of 2900 the enable
  path does not select exponent 3 with divisor 64.
\<close>

theorem tach_divider_24MHz_2900_counterexample:
  "tach_divider 24000000 2900 \<noteq> (3, 64)"
  by (simp add: tach_divider_def tach_target_div_def)

text \<open>
  C3, amended: for a clock of 24,000,000 Hz and a minimum RPM of 2900,
  \<^verbatim>\<open>target_div = (24000000 * 60 / 2900 * 2) / 2^20 = 993102 / 1048576 = 0\<close> in integer
  arithmetic, so the enable path takes the zero branch and selects exponent 0 with divisor
  1 (which is also the exponent at which \<open>4 ^ i\<close> first exceeds \<^verbatim>\<open>target_div\<close>). On the
  default tables the channel's stored divisor becomes 1 and the control word written is
  \<^verbatim>\<open>TACHO_ENABLE\<close> alone, with divider field 0.
\<close>

theorem tach_divider_24MHz_2900:
  "tach_target_div 24000000 2900 = 0 \<and>
   tach_divider 24000000 2900 = (0, 1) \<and>
   tach_target_div 24000000 2900 < BIT 0 * BIT 0 \<and>
   (case aspeed_set_fan_tach_ch_enable (probe_priv 24000000) 0 True of
      Inl f \<Rightarrow> False
    | Inr priv' \<Rightarrow>
        array_get (tacho_channel priv') 0 = Some (default_tacho_param\<lparr>divide' := 1\<rparr>) \<and>
        regs (regmap priv') (ASPEED_TACHO_CTRL_CH 0) = TACHO_ENABLE)"
  by (simp add: tach_divider_def tach_target_div_def BIT_def aspeed_set_fan_tach_ch_enable_def
      probe_priv_def default_tacho_params_def default_tacho_param_def array_get_def array_set_def
      regmap_write_def tach_reg_value_def ASPEED_TACHO_CTRL_CH_def TACHO_ENABLE_def F2F_EDGES_def
      TACHIO_EDGE_BIT_def TACHO_CLK_DIV_BIT_def TACHO_DEBOUNCE_BIT_def)

text \<open>
  C4: for every 32-bit clock rate and every nonzero minimum RPM, enabling a tachometer
  channel succeeds, and the exponent it computes, which is what bits 23:20 (the 4-bit
  divider field) of the control word written to the channel's control register hold, is at
  most 11. (It is in fact at most 6: \<^verbatim>\<open>target_div\<close> is a 32-bit value divided by
  \<open>2 ^ 20\<close>, hence below \<open>4 ^ 6\<close>.)
\<close>

theorem tach_exponent_in_range:
  assumes "array_get (tacho_channel priv) (uint fan_tach_ch) = Some tc"
      and "min_rpm tc \<noteq> 0"
  shows "\<exists>priv'. aspeed_set_fan_tach_ch_enable priv fan_tach_ch True = Inr priv' \<and>
           fst (tach_divider (clk_freq priv) (min_rpm tc)) \<le> 11 \<and>
           drop_bit TACHO_CLK_DIV_BIT (regs (regmap priv') (ASPEED_TACHO_CTRL_CH fan_tach_ch))
             AND 0xf = of_nat (fst (tach_divider (clk_freq priv) (min_rpm tc))) \<and>
           unat (drop_bit TACHO_CLK_DIV_BIT
                   (regs (regmap priv') (ASPEED_TACHO_CTRL_CH fan_tach_ch)) AND 0xf) \<le> 11"
proof -
  obtain i dv where id: "tach_divider (clk_freq priv) (min_rpm tc) = (i, dv)"
    by (cases "tach_divider (clk_freq priv) (min_rpm tc)")
  have i6: "i \<le> 6"
    using tach_divider_le6 [of "clk_freq priv" "min_rpm tc"] id by simp
  then have f: "drop_bit 20 (tach_reg_value (tc\<lparr>divide' := dv\<rparr>) i) AND 0xf = of_nat i"
    by (intro tach_reg_value_field) simp
  have u: "unat (of_nat i :: u32) = i"
    using i6 by (simp add: unat_of_nat)
  show ?thesis
    using assms id i6 f u
    by (simp add: aspeed_set_fan_tach_ch_enable_def regmap_write_def TACHO_CLK_DIV_BIT_def
        Let_def)
qed

text \<open>
  C4, witness: channel 0 of the default tables at 24,000,000 Hz satisfies the hypotheses
  (minimum RPM 2900).
\<close>

theorem tach_exponent_in_range_witness:
  "\<exists>priv'. aspeed_set_fan_tach_ch_enable (probe_priv 24000000) 0 True = Inr priv' \<and>
           fst (tach_divider 24000000 2900) \<le> 11 \<and>
           unat (drop_bit TACHO_CLK_DIV_BIT (regs (regmap priv') (ASPEED_TACHO_CTRL_CH 0))
                   AND 0xf) \<le> 11"
proof -
  have a: "array_get (tacho_channel (probe_priv 24000000)) (uint (0 :: u8)) =
             Some default_tacho_param"
    by (simp add: probe_priv_def default_tacho_params_def array_get_def)
  have b: "min_rpm default_tacho_param \<noteq> 0"
    by (simp add: default_tacho_param_def)
  show ?thesis
    using tach_exponent_in_range [OF a b]
    by (auto simp add: probe_priv_def default_tacho_param_def)
qed

section \<open>Properties of the PWM divider search\<close>

lemma pwm_div_h_loop_bounds:
  "h \<le> 16 \<Longrightarrow> h \<le> pwm_div_h_loop c t l h \<and> pwm_div_h_loop c t l h \<le> 16"
proof (induction c t l h rule: pwm_div_h_loop.induct)
  case (1 c t l h)
  then show ?case
    by (subst (1 2) pwm_div_h_loop.simps) auto
qed

lemma pwm_div_h_loop_found:
  "pwm_div_h_loop c t l h < 16 \<Longrightarrow>
     c div (BIT (pwm_div_h_loop c t l h) * (of_nat l + 1)) < t"
proof (induction c t l h rule: pwm_div_h_loop.induct)
  case (1 c t l h)
  show ?case
  proof (cases "h < 16 \<and> \<not> c div (BIT h * (of_nat l + 1)) < t")
    case True
    then have e: "pwm_div_h_loop c t l h = pwm_div_h_loop c t l (h + 1)"
      by (subst pwm_div_h_loop.simps) simp
    with 1 True show ?thesis by simp
  next
    case False
    then have "pwm_div_h_loop c t l h = h"
      by (subst pwm_div_h_loop.simps) auto
    with 1(2) False show ?thesis by auto
  qed
qed

lemma pwm_div_h_loop_first:
  "h \<le> k \<Longrightarrow> k < pwm_div_h_loop c t l h \<Longrightarrow> \<not> c div (BIT k * (of_nat l + 1)) < t"
proof (induction c t l h rule: pwm_div_h_loop.induct)
  case (1 c t l h)
  show ?case
  proof (cases "h < 16 \<and> \<not> c div (BIT h * (of_nat l + 1)) < t")
    case True
    then have e: "pwm_div_h_loop c t l h = pwm_div_h_loop c t l (h + 1)"
      by (subst pwm_div_h_loop.simps) simp
    show ?thesis
    proof (cases "k = h")
      case True
      with \<open>h < 16 \<and> \<not> c div (BIT h * (of_nat l + 1)) < t\<close> show ?thesis by simp
    next
      case False
      with 1(2) have "h + 1 \<le> k" by simp
      with 1 True e show ?thesis by simp
    qed
  next
    case False
    then have "pwm_div_h_loop c t l h = h"
      by (subst pwm_div_h_loop.simps) auto
    with 1(2,3) show ?thesis by simp
  qed
qed


lemma pwm_div_l_loop_bounds:
  "l \<le> 256 \<Longrightarrow> h \<le> 16 \<Longrightarrow>
     fst (pwm_div_l_loop c t l h) \<le> 16 \<and> snd (pwm_div_l_loop c t l h) \<le> 256"
proof (induction c t l h rule: pwm_div_l_loop.induct)
  case (1 c t l h)
  have hb: "pwm_div_h_loop c t l 0 \<le> 16"
    using pwm_div_h_loop_bounds [of 0 c t l] by simp
  show ?case
  proof (cases "l < 256")
    case True
    with 1 hb show ?thesis
      by (subst (1 2) pwm_div_l_loop.simps) (auto simp add: Let_def)
  next
    case False
    with 1(2,3) show ?thesis
      by (subst (1 2) pwm_div_l_loop.simps) simp
  qed
qed

lemma unat_BIT:
  assumes "k < 32"
  shows "unat (BIT k) = 2 ^ k"
proof -
  have "BIT k = of_nat (2 ^ k)"
    by (simp add: BIT_def)
  then have "unat (BIT k) = 2 ^ k mod 2 ^ 32"
    by (simp only: unat_of_nat) simp
  also from assms have "(2::nat) ^ k < 2 ^ 32"
    by (intro power_strict_increasing) simp_all
  then have "(2::nat) ^ k mod 2 ^ 32 = 2 ^ k"
    by (rule mod_less)
  finally show ?thesis .
qed

lemma div_BIT_antimono:
  assumes "r \<le> h" and "h < 32"
  shows "c div BIT h \<le> c div BIT r"
proof -
  have "unat c div 2 ^ h \<le> unat c div 2 ^ r"
    using assms by (intro div_le_mono2) simp_all
  with assms show ?thesis
    by (simp add: word_le_nat_alt unat_div unat_BIT)
qed

lemma pwm_target_in_range:
  assumes "512 \<le> target"
  shows "(clk div (PWM_PERIOD_MAX + 1)) div BIT 15 < target"
proof -
  have "unat ((clk div (PWM_PERIOD_MAX + 1)) div BIT 15) = unat clk div 256 div 2 ^ 15"
    by (simp add: unat_div unat_BIT PWM_PERIOD_MAX_def)
  also have "\<dots> < 512"
    using unsigned_less [of clk, where 'a = nat] by (simp add: div_mult2_eq [symmetric] less_mult_imp_div_less)
  finally have "(clk div (PWM_PERIOD_MAX + 1)) div BIT 15 < 512"
    by (simp add: word_less_nat_alt)
  with assms show ?thesis by simp
qed

text \<open>
  C1, as stated, fails: at a clock of 24,000,000 Hz (\<^verbatim>\<open>cal_freq = 93750\<close>) and a target
  of 20,000 Hz the search stops at \<^verbatim>\<open>div_h = 3, div_l = 0\<close>, an effective frequency of
  11718 Hz, although the ladder pair \<^verbatim>\<open>div_h = 0, div_l = 4\<close> gives 18750 Hz, which is
  also at most the target and is higher.
\<close>

theorem pwm_divider_not_maximal_counterexample:
  "pwm_div_l_loop (24000000 div (PWM_PERIOD_MAX + 1)) 20000 0 0 = (3, 0) \<and>
   (24000000 div (PWM_PERIOD_MAX + 1)) div (BIT 3 * (of_nat 0 + 1)) = (11718 :: u32) \<and>
   (24000000 div (PWM_PERIOD_MAX + 1)) div (BIT 0 * (of_nat 4 + 1)) = (18750 :: u32) \<and>
   (18750 :: u32) \<le> 20000 \<and> (11718 :: u32) < 18750"
  by (simp add: pwm_div_l_loop.simps pwm_div_h_loop.simps PWM_PERIOD_MAX_def BIT_def Let_def)

text \<open>
  C1, amended: for every source clock rate and every target frequency \<open>T\<close> with
  \<^verbatim>\<open>cal_freq / 2^15 < T\<close>, where \<^verbatim>\<open>cal_freq = clk_freq / 256\<close> (this holds for every
  \<open>T \<ge> 512\<close>, see \<open>pwm_target_in_range\<close>), the search selects \<^verbatim>\<open>div_l = 0\<close> and the
  smallest \<^verbatim>\<open>div_h\<close> in 0..15 with \<^verbatim>\<open>cal_freq / 2^div_h < T\<close>. The effective frequency
  is strictly below the target (hence at most the target), every smaller exponent gives a
  frequency of at least the target, and the selected frequency is the maximal one below the
  target among the power-of-two dividers (\<^verbatim>\<open>div_l = 0\<close>, \<^verbatim>\<open>div_h\<close> in 0..15). It is not in
  general the maximal frequency among all pairs of the ladder.
\<close>

theorem pwm_divider_first_fit:
  assumes "(clk div (PWM_PERIOD_MAX + 1)) div BIT 15 < target"
  shows "\<exists>div_h. pwm_div_l_loop (clk div (PWM_PERIOD_MAX + 1)) target 0 0 = (div_h, 0) \<and>
           div_h \<le> 15 \<and>
           (clk div (PWM_PERIOD_MAX + 1)) div (BIT div_h * (of_nat 0 + 1)) < target \<and>
           (\<forall>h<div_h. target \<le> (clk div (PWM_PERIOD_MAX + 1)) div (BIT h * (of_nat 0 + 1))) \<and>
           (\<forall>h\<le>15. (clk div (PWM_PERIOD_MAX + 1)) div (BIT h * (of_nat 0 + 1)) < target \<longrightarrow>
                    (clk div (PWM_PERIOD_MAX + 1)) div (BIT h * (of_nat 0 + 1))
                      \<le> (clk div (PWM_PERIOD_MAX + 1)) div (BIT div_h * (of_nat 0 + 1)))"
proof -
  let ?c = "clk div (PWM_PERIOD_MAX + 1)"
  let ?r = "pwm_div_h_loop ?c target 0 0"
  have le15: "?r \<le> 15"
  proof (rule ccontr)
    assume "\<not> ?r \<le> 15"
    then have "15 < ?r" by simp
    from pwm_div_h_loop_first [OF _ this] assms show False by simp
  qed
  then have found: "?c div (BIT ?r * (of_nat 0 + 1)) < target"
    by (intro pwm_div_h_loop_found) simp
  then have res: "pwm_div_l_loop ?c target 0 0 = (?r, 0)"
    by (subst pwm_div_l_loop.simps) (simp add: Let_def)
  have first: "target \<le> ?c div (BIT h * (of_nat 0 + 1))" if "h < ?r" for h
    using pwm_div_h_loop_first [OF _ that] by (simp add: not_less)
  have best: "?c div (BIT h * (of_nat 0 + 1)) \<le> ?c div (BIT ?r * (of_nat 0 + 1))"
    if "h \<le> 15" and "?c div (BIT h * (of_nat 0 + 1)) < target" for h
  proof -
    have "?r \<le> h"
    proof (rule ccontr)
      assume "\<not> ?r \<le> h"
      then have "h < ?r" by simp
      from first [OF this] that(2) show False by simp
    qed
    with that(1) show ?thesis
      using div_BIT_antimono [of ?r h ?c] by simp
  qed
  from res le15 found first best show ?thesis by blast
qed

text \<open>
  C1, witness: a clock of 24,000,000 Hz and the default target of 25,000 Hz are in range.
\<close>

theorem pwm_divider_first_fit_witness:
  "(24000000 div (PWM_PERIOD_MAX + 1)) div BIT 15 < (25000 :: u32) \<and>
   (\<exists>div_h. pwm_div_l_loop (24000000 div (PWM_PERIOD_MAX + 1)) 25000 0 0 = (div_h, 0) \<and>
      div_h \<le> 15 \<and>
      (24000000 div (PWM_PERIOD_MAX + 1)) div (BIT div_h * (of_nat 0 + 1)) < (25000 :: u32))"
proof -
  have h: "(24000000 div (PWM_PERIOD_MAX + 1)) div BIT 15 < (25000 :: u32)"
    by (simp add: PWM_PERIOD_MAX_def BIT_def)
  from pwm_divider_first_fit [OF h] h show ?thesis
    by blast
qed

section \<open>Properties of the PWM waveform programmer\<close>

lemma sint_u32: "sint (w :: u32) = (if uint w < 2 ^ 31 then uint w else uint w - 2 ^ 32)"
proof -
  have b: "bit (uint w) 31 \<longleftrightarrow> \<not> uint w < 2 ^ 31"
  proof -
    have "uint w < 2 ^ 32" using uint_lt2p [of w] by simp
    moreover have "0 \<le> uint w" by simp
    ultimately have "uint w div 2 ^ 31 = (if uint w < 2 ^ 31 then 0 else 1)"
      by (auto simp add: div_pos_pos_trivial)
    then show ?thesis by (simp add: bit_iff_odd)
  qed
  have "take_bit 32 (uint w) = uint w"
    using uint_lt2p [of w] by (simp add: take_bit_int_eq_self)
  then show ?thesis
    using b by (simp add: sint_uint signed_take_bit_eq_take_bit_minus)
qed

lemma chan_regs_distinct:
  "ASPEED_PWM_DUTY_CYCLE_CH x \<noteq> ASPEED_PWM_CTRL_CH x"
  by (simp add: ASPEED_PWM_DUTY_CYCLE_CH_def ASPEED_PWM_CTRL_CH_def)

lemma enable_bits_cleared:
  "((w AND NOT (PWM_CLK_ENABLE OR PWM_PIN_EN)) OR (0 AND (PWM_CLK_ENABLE OR PWM_PIN_EN)))
     AND PWM_CLK_ENABLE = 0"
  "((w AND NOT (PWM_CLK_ENABLE OR PWM_PIN_EN)) OR (0 AND (PWM_CLK_ENABLE OR PWM_PIN_EN)))
     AND PWM_PIN_EN = 0"
  by (rule bit_word_eqI;
      auto simp add: PWM_CLK_ENABLE_def PWM_PIN_EN_def bit_BIT bit_and_iff bit_or_iff bit_not_iff)+

lemma pwm_ctrl_value_clk_enable:
  assumes "div_h \<le> 16" and "div_l \<le> 256"
  shows "snd (pwm_duty_ctrl_values pc fan_ctrl div_h div_l) AND PWM_CLK_ENABLE = 0"
proof -
  have h: "bit (of_nat div_h :: u32) m \<Longrightarrow> m < 5" for m
    using bit_of_nat_small [of div_h 5 m] assms(1) by simp
  have l: "bit (of_nat div_l :: u32) m \<Longrightarrow> m < 9" for m
    using bit_of_nat_small [of div_l 9 m] assms(2) by simp
  show ?thesis
  proof (rule bit_word_eqI)
    fix n assume "n < LENGTH(32)"
    then show "bit (snd (pwm_duty_ctrl_values pc fan_ctrl div_h div_l) AND PWM_CLK_ENABLE) n
        = bit (0 :: u32) n"
      using h [of "n - 8"] l [of n]
      by (auto simp add: pwm_duty_ctrl_values_def Let_def PWM_CLK_ENABLE_def
          PWM_DUTY_LOAD_AS_WDT_EN_def PWM_LOAD_AS_WDT_def bit_BIT bit_and_iff bit_or_iff
          bit_push_bit_iff)
  qed
qed

text \<open>
  C7: for every channel and every prior configuration, the waveform programmer with
  falling point 0 succeeds and does one thing only: the read-modify-write that clears the
  clock-enable and pin-enable bits of the channel's control register. Both bits are 0
  afterwards, every other register (the duty register among them) keeps its value, no
  register is written with \<^verbatim>\<open>regmap_write\<close>, and the channel parameters (so the stored
  frequency: no divider search) are unchanged.
\<close>

theorem fan_ctrl_zero_disables:
  "\<exists>priv'. aspeed_set_pwm_channel_fan_ctrl priv index 0 = Inr priv' \<and>
     regs (regmap priv') =
       (regs (regmap priv))(ASPEED_PWM_CTRL_CH index :=
          regs (regmap priv) (ASPEED_PWM_CTRL_CH index) AND NOT (PWM_CLK_ENABLE OR PWM_PIN_EN)) \<and>
     regs (regmap priv') (ASPEED_PWM_CTRL_CH index) AND PWM_CLK_ENABLE = 0 \<and>
     regs (regmap priv') (ASPEED_PWM_CTRL_CH index) AND PWM_PIN_EN = 0 \<and>
     regs (regmap priv') (ASPEED_PWM_DUTY_CYCLE_CH index) =
       regs (regmap priv) (ASPEED_PWM_DUTY_CYCLE_CH index) \<and>
     oplog (regmap priv') = oplog (regmap priv) @
       [Regmap_update_bits (ASPEED_PWM_CTRL_CH index) (PWM_CLK_ENABLE OR PWM_PIN_EN) 0] \<and>
     pwm_channel priv' = pwm_channel priv \<and>
     tacho_channel priv' = tacho_channel priv \<and>
     clk_freq priv' = clk_freq priv"
  using enable_bits_cleared [of "regs (regmap priv) (ASPEED_PWM_CTRL_CH index)"]
  by (simp add: aspeed_set_pwm_channel_fan_ctrl_def aspeed_set_pwm_channel_enable_def
      regmap_update_bits_def chan_regs_distinct)

text \<open>
  C8: in every execution of the waveform programmer with a nonzero falling point on a
  channel of the table, the calls on the register map are, in this order: the write of the
  duty-cycle register, the write of the control register, and the update that sets the
  clock-enable and pin-enable bits. The duty and control words are those of lines 563 to
  576 for the divider pair found by the search, and the control word has the clock-enable
  bit clear: the clock of the channel is enabled by the third call only. Afterwards the
  duty register holds the duty word and the control register the control word with both
  enable bits set.
\<close>

theorem fan_ctrl_write_order:
  assumes "fan_ctrl \<noteq> 0"
      and "array_get (pwm_channel priv) (uint index) = Some pc"
  shows "\<exists>priv' div_h div_l duty_value ctrl_value.
           aspeed_set_pwm_channel_fan_ctrl priv index fan_ctrl = Inr priv' \<and>
           pwm_div_l_loop (clk_freq priv div (PWM_PERIOD_MAX + 1)) (target_freq pc) 0 0
             = (div_h, div_l) \<and>
           pwm_duty_ctrl_values pc fan_ctrl div_h div_l = (duty_value, ctrl_value) \<and>
           oplog (regmap priv') = oplog (regmap priv) @
             [Regmap_write (ASPEED_PWM_DUTY_CYCLE_CH index) duty_value,
              Regmap_write (ASPEED_PWM_CTRL_CH index) ctrl_value,
              Regmap_update_bits (ASPEED_PWM_CTRL_CH index)
                (PWM_CLK_ENABLE OR PWM_PIN_EN) (PWM_CLK_ENABLE OR PWM_PIN_EN)] \<and>
           ctrl_value AND PWM_CLK_ENABLE = 0 \<and>
           regs (regmap priv') (ASPEED_PWM_DUTY_CYCLE_CH index) = duty_value \<and>
           regs (regmap priv') (ASPEED_PWM_CTRL_CH index) =
             (ctrl_value AND NOT (PWM_CLK_ENABLE OR PWM_PIN_EN)) OR
             (PWM_CLK_ENABLE OR PWM_PIN_EN)"
proof -
  obtain div_h div_l where hl:
    "pwm_div_l_loop (clk_freq priv div (PWM_PERIOD_MAX + 1)) (target_freq pc) 0 0 = (div_h, div_l)"
    by (cases "pwm_div_l_loop (clk_freq priv div (PWM_PERIOD_MAX + 1)) (target_freq pc) 0 0")
  obtain dv cv where dc: "pwm_duty_ctrl_values pc fan_ctrl div_h div_l = (dv, cv)"
    by (cases "pwm_duty_ctrl_values pc fan_ctrl div_h div_l")
  have same: "pwm_duty_ctrl_values (pc\<lparr>pwm_freq := f\<rparr>) fan_ctrl div_h div_l
                = pwm_duty_ctrl_values pc fan_ctrl div_h div_l" for f
    by (simp add: pwm_duty_ctrl_values_def Let_def)
  have "div_h \<le> 16 \<and> div_l \<le> 256"
    using pwm_div_l_loop_bounds [of 0 0 "clk_freq priv div (PWM_PERIOD_MAX + 1)" "target_freq pc"]
      hl by simp
  then have "cv AND PWM_CLK_ENABLE = 0"
    using pwm_ctrl_value_clk_enable [of div_h div_l pc fan_ctrl] dc by simp
  then show ?thesis
    using assms hl dc
    by (simp add: aspeed_set_pwm_channel_fan_ctrl_def Let_def same
        aspeed_set_pwm_channel_enable_def regmap_write_def regmap_update_bits_def
        chan_regs_distinct)
qed

text \<open>
  C8, witness: channel 0 of the default tables at 24,000,000 Hz, falling point 255.
\<close>

theorem fan_ctrl_write_order_witness:
  "\<exists>priv' div_h div_l duty_value ctrl_value.
     aspeed_set_pwm_channel_fan_ctrl (probe_priv 24000000) 0 255 = Inr priv' \<and>
     oplog (regmap priv') =
       [Regmap_write (ASPEED_PWM_DUTY_CYCLE_CH 0) duty_value,
        Regmap_write (ASPEED_PWM_CTRL_CH 0) ctrl_value,
        Regmap_update_bits (ASPEED_PWM_CTRL_CH 0)
          (PWM_CLK_ENABLE OR PWM_PIN_EN) (PWM_CLK_ENABLE OR PWM_PIN_EN)]"
proof -
  have a: "(255 :: u8) \<noteq> 0" by simp
  have b: "array_get (pwm_channel (probe_priv 24000000)) (uint (0 :: u8)) =
             Some (default_pwm_param 1)"
    by (simp add: probe_priv_def default_pwm_params_def array_get_def)
  show ?thesis
    using fan_ctrl_write_order [OF a b]
    by (auto simp add: probe_priv_def)
qed


section \<open>Properties of the cooling device\<close>

lemma ucast_u8_u32: "uint (ucast (w :: u8) :: u32) = uint w"
proof -
  have "uint w < 2 ^ 32"
    using uint_lt2p [of w] by simp
  then show ?thesis
    by (simp add: unsigned_ucast_eq take_bit_int_eq_self)
qed

lemma ucast_u32_u8: "uint (w :: u32) < 256 \<Longrightarrow> uint (ucast w :: u8) = uint w"
  by (simp add: unsigned_ucast_eq take_bit_int_eq_self)

lemma array_get_set_same:
  "array_get xs i = Some x \<Longrightarrow> array_get (array_set xs i v) i = Some v"
  by (auto simp add: array_get_def array_set_def split: if_splits)

lemma array_get_set_other:
  "array_get xs i = Some x \<Longrightarrow> j \<noteq> i \<Longrightarrow> array_get (array_set xs i v) j = array_get xs j"
  by (auto simp add: array_get_def array_set_def split: if_splits)

lemma fan_ctrl_succeeds:
  assumes "array_get (pwm_channel priv) (uint index) = Some pc"
  shows "\<exists>priv'. aspeed_set_pwm_channel_fan_ctrl priv index fan_ctrl = Inr priv'"
  using assms
  by (simp add: aspeed_set_pwm_channel_fan_ctrl_def Let_def case_prod_beta)

lemma fan_ctrl_nonzero_channels:
  assumes "fan_ctrl \<noteq> 0"
      and "aspeed_set_pwm_channel_fan_ctrl priv index fan_ctrl = Inr priv'"
  shows "\<exists>pc0 fr. array_get (pwm_channel priv) (uint index) = Some pc0 \<and>
           pwm_channel priv' = array_set (pwm_channel priv) (uint index) (pc0\<lparr>pwm_freq := fr\<rparr>)"
proof (cases "array_get (pwm_channel priv) (uint index)")
  case None
  with assms show ?thesis
    by (simp add: aspeed_set_pwm_channel_fan_ctrl_def)
next
  case (Some pc0)
  with assms show ?thesis
    by (auto simp add: aspeed_set_pwm_channel_fan_ctrl_def Let_def case_prod_beta)
qed

lemma fan_ctrl_falling:
  assumes "aspeed_set_pwm_channel_fan_ctrl priv index fan_ctrl = Inr priv'"
      and "array_get (pwm_channel priv) i = Some pc"
  shows "\<exists>pc'. array_get (pwm_channel priv') i = Some pc' \<and> falling pc' = falling pc"
proof (cases "fan_ctrl = 0")
  case True
  with assms show ?thesis
    by (auto simp add: aspeed_set_pwm_channel_fan_ctrl_def)
next
  case False
  from fan_ctrl_nonzero_channels [OF False assms(1)] obtain pc0 fr where
    a: "array_get (pwm_channel priv) (uint index) = Some pc0" and
    b: "pwm_channel priv' = array_set (pwm_channel priv) (uint index) (pc0\<lparr>pwm_freq := fr\<rparr>)"
    by blast
  show ?thesis
  proof (cases "i = uint index")
    case True
    with a b assms(2) show ?thesis
      by (simp add: array_get_set_same)
  next
    case False
    with a b assms(2) show ?thesis
      by (simp add: array_get_set_other)
  qed
qed

text \<open>
  C6: for every state \<open>s\<close>: if \<open>s > max_state\<close>, \<^verbatim>\<open>aspeed_pwm_cz_set_cur_state\<close> returns
  \<^verbatim>\<open>-EINVAL\<close> and leaves the cooling device and the driver data (channel parameters and
  registers) unchanged. Otherwise, on a cooling device whose level table has
  \<open>max_state + 1\<close> entries and whose channel is one of the 16 of the table, it returns 0,
  sets \<^verbatim>\<open>cur_state\<close> to \<open>s\<close>, and the driver data is the result of the waveform programmer
  invoked with \<^verbatim>\<open>cooling_levels[s]\<close> on the data whose falling point was set to
  \<^verbatim>\<open>cooling_levels[s]\<close>; the channel's stored falling point is \<^verbatim>\<open>cooling_levels[s]\<close>
  afterwards.
\<close>

theorem set_cur_state_cases:
  "(state > ucast (max_state cdev) \<longrightarrow>
      aspeed_pwm_cz_set_cur_state cdev priv state = Inr (Some EINVAL, cdev, priv)) \<and>
   (state \<le> ucast (max_state cdev) \<and>
    length (cooling_levels cdev) = unat (max_state cdev) + 1 \<and>
    length (pwm_channel priv) = 16 \<and>
    array_get (pwm_channel priv) (sint (cdev_pwm_channel cdev)) = Some pc \<longrightarrow>
      (\<exists>priv' pc'.
         aspeed_pwm_cz_set_cur_state cdev priv state =
           Inr (None, cdev\<lparr>cur_state := ucast state\<rparr>, priv') \<and>
         aspeed_set_pwm_channel_fan_ctrl
           (priv\<lparr>pwm_channel := array_set (pwm_channel priv) (sint (cdev_pwm_channel cdev))
                                   (pc\<lparr>falling := cooling_levels cdev ! unat state\<rparr>)\<rparr>)
           (ucast (cdev_pwm_channel cdev)) (cooling_levels cdev ! unat state) = Inr priv' \<and>
         array_get (pwm_channel priv') (sint (cdev_pwm_channel cdev)) = Some pc' \<and>
         falling pc' = cooling_levels cdev ! unat state))"
proof (intro conjI impI)
  assume "state > ucast (max_state cdev)"
  then show "aspeed_pwm_cz_set_cur_state cdev priv state = Inr (Some EINVAL, cdev, priv)"
    unfolding aspeed_pwm_cz_set_cur_state_def by (rule if_P)
next
  let ?ch = "cdev_pwm_channel cdev"
  let ?level = "cooling_levels cdev ! unat state"
  let ?priv1 = "priv\<lparr>pwm_channel := array_set (pwm_channel priv) (sint ?ch)
                                   (pc\<lparr>falling := ?level\<rparr>)\<rparr>"
  assume h: "state \<le> ucast (max_state cdev) \<and>
    length (cooling_levels cdev) = unat (max_state cdev) + 1 \<and>
    length (pwm_channel priv) = 16 \<and>
    array_get (pwm_channel priv) (sint ?ch) = Some pc"
  then have le: "uint state \<le> uint (max_state cdev)"
    by (simp add: word_le_def ucast_u8_u32)
  have "uint (max_state cdev) < 256"
    using uint_lt2p [of "max_state cdev"] by simp
  with le have lt: "uint state < 256" by simp
  then have us: "uint (ucast state :: u8) = uint state"
    by (rule ucast_u32_u8)
  have "int (length (cooling_levels cdev)) = uint (max_state cdev) + 1"
    using h by simp
  with le have lv: "array_get (cooling_levels cdev) (uint state) = Some ?level"
    by (simp add: array_get_def)
  have ch: "0 \<le> sint ?ch" "sint ?ch < 16"
    using h by (auto simp add: array_get_def split: if_splits)
  have uc: "uint (ucast ?ch :: u8) = sint ?ch"
    using ch ucast_u32_u8 [of ?ch] uint_lt2p [of ?ch] by (simp add: sint_u32 split: if_splits)
  have g1: "array_get (pwm_channel ?priv1) (sint ?ch) = Some (pc\<lparr>falling := ?level\<rparr>)"
    using h by (simp add: array_get_set_same)
  from g1 uc have "array_get (pwm_channel ?priv1) (uint (ucast ?ch :: u8)) =
      Some (pc\<lparr>falling := ?level\<rparr>)"
    by simp
  from fan_ctrl_succeeds [OF this]
  obtain priv' where f: "aspeed_set_pwm_channel_fan_ctrl ?priv1 (ucast ?ch) ?level = Inr priv'"
    by blast
  from fan_ctrl_falling [OF f g1] obtain pc' where
    p: "array_get (pwm_channel priv') (sint ?ch) = Some pc'" "falling pc' = ?level"
    by auto
  have "aspeed_pwm_cz_set_cur_state cdev priv state =
           Inr (None, cdev\<lparr>cur_state := ucast state\<rparr>, priv')"
    using h us lv f by (simp add: aspeed_pwm_cz_set_cur_state_def Let_def not_less [symmetric])
  with f p show "\<exists>priv' pc'.
         aspeed_pwm_cz_set_cur_state cdev priv state =
           Inr (None, cdev\<lparr>cur_state := ucast state\<rparr>, priv') \<and>
         aspeed_set_pwm_channel_fan_ctrl ?priv1 (ucast ?ch) ?level = Inr priv' \<and>
         array_get (pwm_channel priv') (sint ?ch) = Some pc' \<and>
         falling pc' = ?level"
    by (intro exI [where x = priv'] exI [where x = pc'] conjI)
qed


text \<open>
  C6, witness: a cooling device on channel 0 with the three levels 0, 128 and 255
  (\<open>max_state = 2\<close>): state 3 is rejected, state 1 is accepted and stores the level 128.
\<close>

theorem set_cur_state_cases_witness:
  "aspeed_pwm_cz_set_cur_state
     \<lparr>cdev_pwm_channel = 0, cooling_levels = [0, 128, 255], max_state = 2, cur_state = 0\<rparr>
     (probe_priv 24000000) 3
   = Inr (Some EINVAL,
          \<lparr>cdev_pwm_channel = 0, cooling_levels = [0, 128, 255], max_state = 2, cur_state = 0\<rparr>,
          probe_priv 24000000) \<and>
   (\<exists>priv' pc'.
      aspeed_pwm_cz_set_cur_state
        \<lparr>cdev_pwm_channel = 0, cooling_levels = [0, 128, 255], max_state = 2, cur_state = 0\<rparr>
        (probe_priv 24000000) 1
      = Inr (None,
             \<lparr>cdev_pwm_channel = 0, cooling_levels = [0, 128, 255], max_state = 2, cur_state = 1\<rparr>,
             priv') \<and>
      array_get (pwm_channel priv') 0 = Some pc' \<and> falling pc' = 128)"
proof -
  let ?cdev = "\<lparr>cdev_pwm_channel = 0, cooling_levels = [0, 128, 255], max_state = 2,
                cur_state = 0\<rparr>"
  have l: "length (pwm_channel (probe_priv 24000000)) = 16"
    by (simp add: probe_priv_def default_pwm_params_def)
  have g: "array_get (pwm_channel (probe_priv 24000000)) (sint (cdev_pwm_channel ?cdev)) =
             Some (default_pwm_param 1)"
    by (simp add: probe_priv_def default_pwm_params_def array_get_def)
  show ?thesis
    using set_cur_state_cases [of ?cdev 3 "probe_priv 24000000" "default_pwm_param 1"]
      set_cur_state_cases [of ?cdev 1 "probe_priv 24000000" "default_pwm_param 1"] l g
    by simp blast
qed

section \<open>Properties of the tachometer reader\<close>

lemma tach_raw_less: "unat (tach_raw rd) < 2 ^ 20"
proof -
  have "tach_raw rd = take_bit 20 (tach_sts_poll rd 0 0)"
    by (simp add: tach_raw_def TACHO_VALUE_MASK_def take_bit_eq_mask mask_eq_decr_exp)
  then show ?thesis
    using take_bit_nat_less_exp [of 20 "unat (tach_sts_poll rd 0 0)"]
    by (simp add: unsigned_take_bit_eq)
qed

lemma steady_poll: "tach_sts_poll (steady_reads v) 0 x = v"
  by (simp add: tach_sts_poll.simps steady_reads_def Let_def)

text \<open>The code in 32-bit arithmetic, read back as natural numbers.\<close>

lemma rpm_unat:
  assumes tc: "array_get (tacho_channel priv) (uint ch) = Some tc"
      and ns: "tach_raw rd \<noteq> 0xfffff"
      and nz: "((unat (tach_raw rd) + 1) * unat (divide' tc) * 2) mod 2 ^ 32 \<noteq> 0"
  shows "\<exists>r. aspeed_get_fan_tach_ch_rpm priv ch rd = Inr r \<and>
           unat r = (unat (clk_freq priv) div
                      (((unat (tach_raw rd) + 1) * unat (divide' tc) * 2) mod 2 ^ 32) * 60)
                    mod 2 ^ 32"
proof -
  let ?w = "tach_raw rd"
  have "unat ?w + unat (1 :: u32) < 2 ^ 32"
    using tach_raw_less [of rd] by simp
  then have u1: "unat (?w + 1) = unat ?w + 1"
    by (simp add: unat_add_lem [THEN iffD1])
  then have w1: "?w + 1 \<noteq> 0"
    by (metis Suc_eq_plus1 nat.distinct(1) unat_0)
  have td: "unat ((?w + 1) * divide' tc * 2) = ((unat ?w + 1) * unat (divide' tc) * 2) mod 2 ^ 32"
    by (simp add: unat_word_ariths u1 mod_mult_left_eq mod_mult_right_eq)
  with nz have tz: "(?w + 1) * divide' tc * 2 \<noteq> 0"
    by (metis unat_0)
  have "aspeed_get_fan_tach_ch_rpm priv ch rd =
          Inr (clk_freq priv div ((?w + 1) * divide' tc * 2) * 60)"
    using tc ns w1 tz
    by (simp add: aspeed_get_fan_tach_ch_rpm_def Let_def tach_raw_def)
  moreover have "unat (clk_freq priv div ((?w + 1) * divide' tc * 2) * 60) =
      (unat (clk_freq priv) div (((unat ?w + 1) * unat (divide' tc) * 2) mod 2 ^ 32) * 60)
        mod 2 ^ 32"
  proof -
    have m60: "unat (q * 60) = (unat q * 60) mod 2 ^ 32" for q :: u32
      by (simp add: unat_word_ariths)
    show ?thesis
      by (simp only: m60 unat_div td)
  qed
  ultimately show ?thesis by simp
qed


lemma sint_small:
  assumes "unat (r :: u32) < 2 ^ 31"
  shows "sint r = int (unat r)"
proof -
  have e: "int (unat r) = uint r" by simp
  from assms have "int (unat r) < int (2 ^ 31)"
    by (simp only: of_nat_less_iff)
  with e have "uint r < 2 ^ 31" by simp
  then have "sint r = uint r" by (simp add: sint_u32)
  with e show ?thesis by simp
qed

lemma unat_neq_sentinel:
  assumes "w \<noteq> (0xfffff :: u32)"
  shows "unat w \<noteq> 0xFFFFF"
proof
  assume "unat w = 0xFFFFF"
  then have "of_nat (unat w) = (of_nat 0xFFFFF :: u32)" by simp
  then have "w = 0xfffff" by simp
  with assms show False by simp
qed

lemma rpm_reference:
  assumes tc: "array_get (tacho_channel priv) (uint ch) = Some tc"
      and ok: "tach_raw rd \<noteq> 0xfffff \<Longrightarrow>
                 0 < unat (divide' tc) \<and>
                 (unat (tach_raw rd) + 1) * unat (divide' tc) * 2 < 2 ^ 32 \<and>
                 unat (clk_freq priv) div ((unat (tach_raw rd) + 1) * unat (divide' tc) * 2) * 60
                   < 2 ^ 31"
  shows "\<exists>r. aspeed_get_fan_tach_ch_rpm priv ch rd = Inr r \<and>
           sint r = int (raw_to_rpm_spec (unat (tach_raw rd)) (unat (divide' tc))
                          (unat (clk_freq priv)))"
proof (cases "tach_raw rd = 0xfffff")
  case True
  then show ?thesis
    by (simp add: aspeed_get_fan_tach_ch_rpm_def raw_to_rpm_spec_def tach_raw_def)
next
  case False
  let ?den = "(unat (tach_raw rd) + 1) * unat (divide' tc) * 2"
  let ?c = "unat (clk_freq priv)"
  from ok [OF False] have d: "0 < unat (divide' tc)" and den: "?den < 2 ^ 32"
    and res: "?c div ?den * 60 < 2 ^ 31"
    by simp_all
  from d have "?den \<noteq> 0" by simp
  with den have nz: "?den mod 2 ^ 32 \<noteq> 0" by simp
  from rpm_unat [OF tc False nz] obtain r where
    r: "aspeed_get_fan_tach_ch_rpm priv ch rd = Inr r"
       "unat r = (?c div (?den mod 2 ^ 32) * 60) mod 2 ^ 32"
    by blast
  from den res r(2) have u: "unat r = ?c div ?den * 60" by simp
  with res have "sint r = int (?c div ?den * 60)"
    by (simp add: sint_small)
  moreover from False have "unat (tach_raw rd) \<noteq> 0xFFFFF"
    by (rule unat_neq_sentinel)
  ultimately show ?thesis
    using r(1) by (simp add: raw_to_rpm_spec_def Let_def)
qed

lemma raw_to_rpm_spec_antimono:
  assumes "a \<le> b" and "b \<le> 0xFFFFF" and "0 < d"
  shows "raw_to_rpm_spec b d c \<le> raw_to_rpm_spec a d c"
proof (cases "b = 0xFFFFF")
  case True
  then show ?thesis by (simp add: raw_to_rpm_spec_def)
next
  case False
  with assms have a: "a \<noteq> 0xFFFFF" by simp
  from assms have "c div ((b + 1) * d * 2) \<le> c div ((a + 1) * d * 2)"
    by (intro div_le_mono2) simp_all
  with False a show ?thesis
    by (simp add: raw_to_rpm_spec_def Let_def)
qed

lemma rpm_small_divisor:
  assumes tc: "array_get (tacho_channel priv) (uint ch) = Some tc"
      and d1: "1 \<le> unat (divide' tc)" and d2: "unat (divide' tc) \<le> 2048"
      and c: "unat (clk_freq priv) div (2 * unat (divide' tc)) * 60 < 2 ^ 31"
  shows "\<exists>r. aspeed_get_fan_tach_ch_rpm priv ch rd = Inr r \<and>
           sint r = int (raw_to_rpm_spec (unat (tach_raw rd)) (unat (divide' tc))
                          (unat (clk_freq priv)))"
proof (rule rpm_reference [OF tc])
  let ?raw = "unat (tach_raw rd)"
  let ?d = "unat (divide' tc)"
  assume "tach_raw rd \<noteq> 0xfffff"
  then have "?raw \<noteq> 0xFFFFF" by (rule unat_neq_sentinel)
  with tach_raw_less [of rd] have "?raw + 1 \<le> 0xFFFFF" by simp
  then have "(?raw + 1) * (?d * 2) \<le> 0xFFFFF * (2048 * 2)"
    using d2 by (intro mult_le_mono) simp_all
  then have den: "(?raw + 1) * ?d * 2 < 2 ^ 32"
    by (simp add: mult.assoc)
  have "2 * ?d \<le> (?raw + 1) * ?d * 2" by simp
  moreover have "0 < 2 * ?d" using d1 by simp
  ultimately have "unat (clk_freq priv) div ((?raw + 1) * ?d * 2)
      \<le> unat (clk_freq priv) div (2 * ?d)"
    by (rule div_le_mono2 [rotated])
  then have "unat (clk_freq priv) div ((?raw + 1) * ?d * 2) * 60
      \<le> unat (clk_freq priv) div (2 * ?d) * 60"
    by simp
  with c have "unat (clk_freq priv) div ((?raw + 1) * ?d * 2) * 60 < 2 ^ 31"
    by (rule le_less_trans [rotated])
  with d1 den show "0 < ?d \<and> (?raw + 1) * ?d * 2 < 2 ^ 32 \<and>
      unat (clk_freq priv) div ((?raw + 1) * ?d * 2) * 60 < 2 ^ 31"
    by simp
qed

lemma tach_divider_min_rpm_1: "tach_divider 24000000 1 = (6, 4096)"
  by (simp add: tach_divider_def tach_target_div_def tach_div_loop.simps BIT_def Let_def)

lemma fan_min_rpm_1_reachable:
  "aspeed_set_fan_tach_ch_enable fan_min_rpm_1_before 0 True = Inr fan_min_rpm_1_priv"
  by (simp add: aspeed_set_fan_tach_ch_enable_def fan_min_rpm_1_before_def
      fan_min_rpm_1_priv_def probe_priv_def default_tacho_params_def default_tacho_param_def
      array_get_def array_set_def tach_divider_min_rpm_1 Let_def)

lemma fan_min_rpm_1_channel:
  "array_get (tacho_channel fan_min_rpm_1_priv) 0 =
     Some (default_tacho_param\<lparr>min_rpm := 1, divide' := 4096\<rparr>)"
  by (simp add: fan_min_rpm_1_priv_def probe_priv_def default_tacho_params_def
      array_get_def array_set_def)

lemma fan_min_rpm_1_clk: "clk_freq fan_min_rpm_1_priv = 24000000"
  by (simp add: fan_min_rpm_1_priv_def probe_priv_def)

lemma tach_raw_steady_vals:
  "tach_raw (steady_reads 0x7FFFE) = 0x7FFFE"
  "tach_raw (steady_reads 0x80000) = 0x80000"
  "tach_raw (steady_reads 0x7FFFF) = 0x7FFFF"
  by (simp_all add: tach_raw_def steady_poll TACHO_VALUE_MASK_def)

text \<open>
  The 32-bit denominator with the divisor 4096 at 24,000,000 Hz: for the raw value 0x7FFFE
  it is \<open>524287 * 8192\<close>, just below \<open>2 ^ 32\<close>, and the result is 0; for 0x80000 it
  wraps to 8192 and the result is 175740; for 0x7FFFF it wraps to 0.
\<close>

lemma rpm_steady:
  "aspeed_get_fan_tach_ch_rpm fan_min_rpm_1_priv 0 (steady_reads 0x80000) = Inr 175740"
  "aspeed_get_fan_tach_ch_rpm fan_min_rpm_1_priv 0 (steady_reads 0x7FFFE) = Inr 0"
  "aspeed_get_fan_tach_ch_rpm fan_min_rpm_1_priv 0 (steady_reads 0x7FFFF) = Inl Division_by_zero"
  by (simp_all add: aspeed_get_fan_tach_ch_rpm_def fan_min_rpm_1_channel fan_min_rpm_1_clk
      steady_poll TACHO_VALUE_MASK_def Let_def)

lemma probe_priv_tacho_channel:
  "array_get (tacho_channel (probe_priv clk)) 0 = Some default_tacho_param"
  by (simp add: probe_priv_def default_tacho_params_def array_get_def)

lemma probe_priv_clk_freq: "clk_freq (probe_priv clk) = clk"
  by (simp add: probe_priv_def)

lemma rpm_2GHz:
  "aspeed_get_fan_tach_ch_rpm (probe_priv 2000000000) 0 (steady_reads 0) = Inr 3205032704"
  "aspeed_get_fan_tach_ch_rpm (probe_priv 2000000000) 0 (steady_reads 1) = Inr 3750000000"
  by (simp_all add: aspeed_get_fan_tach_ch_rpm_def probe_priv_tacho_channel steady_poll
      TACHO_VALUE_MASK_def Let_def default_tacho_param_def probe_priv_clk_freq)

text \<open>
  C2, as stated, fails: the code computes in 32-bit arithmetic and returns an \<^verbatim>\<open>int\<close>.
  With the default divisor 8, a clock of 2,000,000,000 Hz and the raw value 0, the quotient
  \<open>2000000000 div 16 = 125000000\<close> times 60 is 7,500,000,000, which no 32-bit result can
  hold: the code returns the bits 3205032704, the \<^verbatim>\<open>int\<close> \<open>- 1089934592\<close>.
\<close>

theorem rpm_reference_overflow_counterexample:
  "aspeed_get_fan_tach_ch_rpm (probe_priv 2000000000) 0 (steady_reads 0) = Inr 3205032704 \<and>
   sint (3205032704 :: s32) = - 1089934592 \<and>
   tach_raw (steady_reads 0) = 0 \<and>
   array_get (tacho_channel (probe_priv 2000000000)) 0 = Some default_tacho_param \<and>
   divide' default_tacho_param = 8 \<and>
   clk_freq (probe_priv 2000000000) = 2000000000 \<and>
   raw_to_rpm_spec 0 8 2000000000 = 7500000000"
  by (simp add: rpm_2GHz probe_priv_tacho_channel tach_raw_def steady_poll TACHO_VALUE_MASK_def
      default_tacho_param_def probe_priv_clk_freq raw_to_rpm_spec_def Let_def)

text \<open>
  C2, amended: the RPM conversion equals the reference definition whenever the 32-bit
  arithmetic does not overflow: if the 20-bit raw value is 0xFFFFF the result is 0;
  otherwise, provided the stored divisor is at least 1, the denominator
  \<open>(raw + 1) * divisor * 2\<close> is below \<open>2 ^ 32\<close> and \<open>(clock / denominator) * 60\<close> is below
  \<open>2 ^ 31\<close> (the return type is \<^verbatim>\<open>int\<close>), the result is
  \<open>(source_clock / ((raw + 1) * divisor * 2)) * 60\<close>, with the integer division performed
  first and the multiplication by 60 after it. (Every divisor up to 2048, the default 8
  among them, keeps the denominator below \<open>2 ^ 32\<close> for every raw value.)
\<close>

theorem rpm_matches_reference:
  assumes "array_get (tacho_channel priv) (uint ch) = Some tc"
      and "tach_raw rd \<noteq> 0xfffff \<Longrightarrow>
             0 < unat (divide' tc) \<and>
             (unat (tach_raw rd) + 1) * unat (divide' tc) * 2 < 2 ^ 32 \<and>
             unat (clk_freq priv) div ((unat (tach_raw rd) + 1) * unat (divide' tc) * 2) * 60
               < 2 ^ 31"
  shows "\<exists>r. aspeed_get_fan_tach_ch_rpm priv ch rd = Inr r \<and>
           sint r = int (raw_to_rpm_spec (unat (tach_raw rd)) (unat (divide' tc))
                          (unat (clk_freq priv)))"
  using assms by (rule rpm_reference)

text \<open>
  C2, witness: channel 0 of the default tables (divisor 8) at 24,000,000 Hz with the raw
  value 1000: \<open>24000000 div (1001 * 8 * 2) * 60 = 89880\<close>.
\<close>

theorem rpm_matches_reference_witness:
  "array_get (tacho_channel (probe_priv 24000000)) (uint (0 :: u8)) = Some default_tacho_param \<and>
   tach_raw (steady_reads 1000) = 1000 \<and>
   (\<exists>r. aspeed_get_fan_tach_ch_rpm (probe_priv 24000000) 0 (steady_reads 1000) = Inr r \<and>
        sint r = 89880)"
proof -
  have a: "array_get (tacho_channel (probe_priv 24000000)) (uint (0 :: u8)) =
             Some default_tacho_param"
    by (simp add: probe_priv_def default_tacho_params_def array_get_def)
  have r: "tach_raw (steady_reads 1000) = 1000"
    by (simp add: tach_raw_def steady_poll TACHO_VALUE_MASK_def)
  have b: "0 < unat (divide' default_tacho_param) \<and>
           (unat (tach_raw (steady_reads 1000)) + 1) * unat (divide' default_tacho_param) * 2
             < 2 ^ 32 \<and>
           unat (clk_freq (probe_priv 24000000)) div
             ((unat (tach_raw (steady_reads 1000)) + 1) * unat (divide' default_tacho_param) * 2)
             * 60 < 2 ^ 31"
    by (simp add: r default_tacho_param_def probe_priv_def)
  from rpm_matches_reference [OF a b] a r show ?thesis
    by (simp add: raw_to_rpm_spec_def Let_def default_tacho_param_def probe_priv_def)
qed

text \<open>
  C5, as stated, fails: with the default divisor 8 and a clock of 2,000,000,000 Hz, the raw
  value 0 gives \<open>125000000 * 60\<close>, which wraps to 3205032704 (the \<^verbatim>\<open>int\<close>
  \<open>- 1089934592\<close>), and the larger raw value 1 gives \<open>62500000 * 60 = 3750000000\<close> (the
  \<^verbatim>\<open>int\<close> \<open>- 544967296\<close>), which is greater, read as unsigned or as signed.
\<close>

theorem rpm_not_monotone_counterexample:
  "tach_raw (steady_reads 0) \<le> tach_raw (steady_reads 1) \<and>
   aspeed_get_fan_tach_ch_rpm (probe_priv 2000000000) 0 (steady_reads 0) = Inr 3205032704 \<and>
   aspeed_get_fan_tach_ch_rpm (probe_priv 2000000000) 0 (steady_reads 1) = Inr 3750000000 \<and>
   sint (3205032704 :: s32) < sint (3750000000 :: s32) \<and>
   (3205032704 :: u32) < 3750000000"
  by (simp add: rpm_2GHz tach_raw_def steady_poll TACHO_VALUE_MASK_def)

text \<open>
  C5, amended: for every stored divisor from 1 to 2048 and every source clock with
  \<open>(clock / (2 * divisor)) * 60 < 2 ^ 31\<close> (no overflow of the 32-bit arithmetic for any raw
  value), the RPM conversion is monotonically non-increasing in the raw counter value: for
  all raw values \<open>a \<le> b\<close>, the sentinel 0xFFFFF included, both conversions succeed and the
  RPM for \<open>b\<close> is at most the RPM for \<open>a\<close>.
\<close>

theorem rpm_monotone:
  assumes "array_get (tacho_channel priv) (uint ch) = Some tc"
      and "1 \<le> unat (divide' tc)" and "unat (divide' tc) \<le> 2048"
      and "unat (clk_freq priv) div (2 * unat (divide' tc)) * 60 < 2 ^ 31"
      and "tach_raw rd_a \<le> tach_raw rd_b"
  shows "\<exists>ra rb. aspeed_get_fan_tach_ch_rpm priv ch rd_a = Inr ra \<and>
                 aspeed_get_fan_tach_ch_rpm priv ch rd_b = Inr rb \<and>
                 sint rb \<le> sint ra"
proof -
  let ?d = "unat (divide' tc)" and ?c = "unat (clk_freq priv)"
  from rpm_small_divisor [OF assms(1-4)] obtain ra where
    ra: "aspeed_get_fan_tach_ch_rpm priv ch rd_a = Inr ra"
        "sint ra = int (raw_to_rpm_spec (unat (tach_raw rd_a)) ?d ?c)"
    by blast
  from rpm_small_divisor [OF assms(1-4)] obtain rb where
    rb: "aspeed_get_fan_tach_ch_rpm priv ch rd_b = Inr rb"
        "sint rb = int (raw_to_rpm_spec (unat (tach_raw rd_b)) ?d ?c)"
    by blast
  have "unat (tach_raw rd_a) \<le> unat (tach_raw rd_b)"
    using assms(5) by (simp add: word_le_nat_alt)
  moreover have "unat (tach_raw rd_b) \<le> 0xFFFFF"
    using tach_raw_less [of rd_b] by simp
  ultimately have "raw_to_rpm_spec (unat (tach_raw rd_b)) ?d ?c
      \<le> raw_to_rpm_spec (unat (tach_raw rd_a)) ?d ?c"
    using assms(2) by (intro raw_to_rpm_spec_antimono) simp_all
  with ra rb show ?thesis by simp
qed

text \<open>
  C5, witness: channel 0 of the default tables (divisor 8) at 24,000,000 Hz, raw values
  1000 and 2000.
\<close>

theorem rpm_monotone_witness:
  "tach_raw (steady_reads 1000) \<le> tach_raw (steady_reads 2000) \<and>
   (\<exists>ra rb. aspeed_get_fan_tach_ch_rpm (probe_priv 24000000) 0 (steady_reads 1000) = Inr ra \<and>
            aspeed_get_fan_tach_ch_rpm (probe_priv 24000000) 0 (steady_reads 2000) = Inr rb \<and>
            sint rb \<le> sint ra)"
proof -
  have a: "array_get (tacho_channel (probe_priv 24000000)) (uint (0 :: u8)) =
             Some default_tacho_param"
    by (simp add: probe_priv_def default_tacho_params_def array_get_def)
  have d1: "1 \<le> unat (divide' default_tacho_param)"
    and d2: "unat (divide' default_tacho_param) \<le> 2048"
    by (simp_all add: default_tacho_param_def)
  have c: "unat (clk_freq (probe_priv 24000000)) div (2 * unat (divide' default_tacho_param))
             * 60 < 2 ^ 31"
    by (simp add: default_tacho_param_def probe_priv_def)
  have le: "tach_raw (steady_reads 1000) \<le> tach_raw (steady_reads 2000)"
    by (simp add: tach_raw_def steady_poll TACHO_VALUE_MASK_def)
  from rpm_monotone [OF a d1 d2 c le] le show ?thesis
    by simp
qed

text \<open>
  What does hold of the denominator: the incremented raw value is never 0, so the guard
  \<^verbatim>\<open>raw_data == 0\<close> after the increment is dead code, and for a stored divisor from 1 to
  2048 (the default 8 among them) the conversion never divides by zero.
\<close>

lemma raw_data_incremented_nonzero: "tach_raw rd + 1 \<noteq> 0"
proof -
  have "unat (tach_raw rd) + unat (1 :: u32) < 2 ^ 32"
    using tach_raw_less [of rd] by simp
  then have "unat (tach_raw rd + 1) = unat (tach_raw rd) + 1"
    by (simp add: unat_add_lem [THEN iffD1])
  then show ?thesis
    by (metis Suc_eq_plus1 nat.distinct(1) unat_0)
qed

lemma rpm_defined_small_divisor:
  assumes tc: "array_get (tacho_channel priv) (uint ch) = Some tc"
      and d1: "1 \<le> unat (divide' tc)" and d2: "unat (divide' tc) \<le> 2048"
  shows "\<exists>r. aspeed_get_fan_tach_ch_rpm priv ch rd = Inr r"
proof (cases "tach_raw rd = 0xfffff")
  case True
  then show ?thesis
    by (simp add: aspeed_get_fan_tach_ch_rpm_def tach_raw_def)
next
  case False
  let ?raw = "unat (tach_raw rd)"
  let ?d = "unat (divide' tc)"
  from False have "?raw \<noteq> 0xFFFFF" by (rule unat_neq_sentinel)
  with tach_raw_less [of rd] have "?raw + 1 \<le> 0xFFFFF" by simp
  then have "(?raw + 1) * (?d * 2) \<le> 0xFFFFF * (2048 * 2)"
    using d2 by (intro mult_le_mono) simp_all
  then have "(?raw + 1) * ?d * 2 < 2 ^ 32"
    by (simp add: mult.assoc)
  moreover from d1 have "(?raw + 1) * ?d * 2 \<noteq> 0" by simp
  ultimately have "((?raw + 1) * ?d * 2) mod 2 ^ 32 \<noteq> 0" by simp
  from rpm_unat [OF tc False this] show ?thesis by blast
qed

text \<open>
  C10 does not hold of the code: the denominator is computed in 32-bit arithmetic and the
  guard tests \<^verbatim>\<open>raw_data\<close>, not \<^verbatim>\<open>tach_div\<close>. Enabling channel 0 with a minimum RPM of 1
  at 24,000,000 Hz stores the divisor 4096; with the raw value 0x7FFFF the denominator
  \<open>524288 * 4096 * 2 = 2 ^ 32\<close> wraps to 0 and the division traps.
\<close>

theorem rpm_division_by_zero:
  "aspeed_set_fan_tach_ch_enable fan_min_rpm_1_before 0 True = Inr fan_min_rpm_1_priv \<and>
   array_get (tacho_channel fan_min_rpm_1_priv) 0 =
     Some (default_tacho_param\<lparr>min_rpm := 1, divide' := 4096\<rparr>) \<and>
   tach_raw (steady_reads 0x7FFFF) = 0x7FFFF \<and>
   aspeed_get_fan_tach_ch_rpm fan_min_rpm_1_priv 0 (steady_reads 0x7FFFF)
     = Inl Division_by_zero"
  by (simp add: fan_min_rpm_1_reachable fan_min_rpm_1_channel tach_raw_steady_vals rpm_steady)

section \<open>Properties of the ADC driver\<close>

lemma adc_reject_unsigned:
  fixes val lo hi :: u32
  assumes "uint hi < 2 ^ 31"
      and "sint val < uint lo \<or> sint val > uint hi"
  shows "val < lo \<or> val > hi"
  using assms uint_lt2p [of val] by (auto simp add: word_less_def sint_u32 split: if_splits)

text \<open>
  C9: for each of the three models of the driver, \<^verbatim>\<open>aspeed_adc_write_raw\<close> returns
  \<^verbatim>\<open>-EINVAL\<close> and leaves the ADC state (registers and clock) unchanged for every
  sample-frequency write whose value, read as the signed \<^verbatim>\<open>int\<close> it is, is below the
  model's minimum or above the model's maximum sampling rate, and returns \<^verbatim>\<open>-EPERM\<close>, the
  state unchanged, for every write of the raw or the scale attribute.
\<close>

theorem adc_write_raw_rejects:
  assumes "model_data \<in> set aspeed_adc_matches"
  shows "(sint val < uint (min_sampling_rate model_data) \<or>
          sint val > uint (max_sampling_rate model_data) \<longrightarrow>
            aspeed_adc_write_raw clk_set_rate model_data data val val2 IIO_CHAN_INFO_SAMP_FREQ
              = (Some EINVAL, data)) \<and>
         aspeed_adc_write_raw clk_set_rate model_data data val val2 IIO_CHAN_INFO_RAW
              = (Some EPERM, data) \<and>
         aspeed_adc_write_raw clk_set_rate model_data data val val2 IIO_CHAN_INFO_SCALE
              = (Some EPERM, data)"
proof -
  from assms have "uint (max_sampling_rate model_data) < 2 ^ 31"
    by (auto simp add: aspeed_adc_matches_def ast2400_model_data_def ast2500_model_data_def
        ast2600_model_data_def)
  then have "sint val < uint (min_sampling_rate model_data) \<or>
             sint val > uint (max_sampling_rate model_data) \<Longrightarrow>
             val < min_sampling_rate model_data \<or> val > max_sampling_rate model_data"
    by (rule adc_reject_unsigned)
  then show ?thesis
    by (auto simp add: aspeed_adc_write_raw_def)
qed

text \<open>
  C9, witness: the AST2400 model (minimum 10000 Hz) and a write of 9999.
\<close>

theorem adc_write_raw_rejects_witness:
  "sint (9999 :: s32) < uint (min_sampling_rate ast2400_model_data) \<and>
   aspeed_adc_write_raw (\<lambda>c r. r) ast2400_model_data
       \<lparr>base = (\<lambda>r. 0), clk_scaler = (24000000 :: u32), cv = 0\<rparr> 9999 0 IIO_CHAN_INFO_SAMP_FREQ
     = (Some EINVAL, \<lparr>base = (\<lambda>r. 0), clk_scaler = 24000000, cv = 0\<rparr>) \<and>
   aspeed_adc_write_raw (\<lambda>c r. r) ast2400_model_data
       \<lparr>base = (\<lambda>r. 0), clk_scaler = (24000000 :: u32), cv = 0\<rparr> 9999 0 IIO_CHAN_INFO_RAW
     = (Some EPERM, \<lparr>base = (\<lambda>r. 0), clk_scaler = 24000000, cv = 0\<rparr>)"
proof -
  have m: "ast2400_model_data \<in> set aspeed_adc_matches"
    by (simp add: aspeed_adc_matches_def)
  have s: "sint (9999 :: s32) < uint (min_sampling_rate ast2400_model_data)"
    by (simp add: ast2400_model_data_def)
  show ?thesis
    using s adc_write_raw_rejects [OF m, of 9999 "\<lambda>c r. r"
        "\<lparr>base = (\<lambda>r. 0), clk_scaler = (24000000 :: u32), cv = 0\<rparr>" 0]
    by simp
qed


end
